theory Spec2Isabelle
  imports Main
begin

section \<open>Data model\<close>

text \<open>
  The lifecycle status of a node: the type \<^verbatim>\<open>Status\<close> of the \<^verbatim>\<open>node\<close> package of the
  MAAS client library, an integer type. The library is not part of this repository; its
  constants carry the numbers of the node status enumeration of MAAS, from 0 to 22, in
  which the default status and the new status are the same number 0. The switch of
  \<^verbatim>\<open>unlinkSubnet\<close> has twenty-three of the constants as case labels, all but
  \<^verbatim>\<open>node.StatusDefault\<close>. A status decoded from the answer of the service can be any
  integer.
\<close>

type_synonym Status = int

definition StatusDefault :: Status where "StatusDefault = 0"
definition StatusNew :: Status where "StatusNew = 0"
definition StatusCommissioning :: Status where "StatusCommissioning = 1"
definition StatusFailedCommissioning :: Status where "StatusFailedCommissioning = 2"
definition StatusMissing :: Status where "StatusMissing = 3"
definition StatusReady :: Status where "StatusReady = 4"
definition StatusReserved :: Status where "StatusReserved = 5"
definition StatusDeployed :: Status where "StatusDeployed = 6"
definition StatusRetired :: Status where "StatusRetired = 7"
definition StatusBroken :: Status where "StatusBroken = 8"
definition StatusDeploying :: Status where "StatusDeploying = 9"
definition StatusAllocated :: Status where "StatusAllocated = 10"
definition StatusFailedDeployment :: Status where "StatusFailedDeployment = 11"
definition StatusReleasing :: Status where "StatusReleasing = 12"
definition StatusFailedReleasing :: Status where "StatusFailedReleasing = 13"
definition StatusDiskErasing :: Status where "StatusDiskErasing = 14"
definition StatusFailedDiskErasing :: Status where "StatusFailedDiskErasing = 15"
definition StatusRescueMode :: Status where "StatusRescueMode = 16"
definition StatusEnteringRescureMode :: Status where "StatusEnteringRescureMode = 17"
definition StatusFailedEnteringRescueMode :: Status where "StatusFailedEnteringRescueMode = 18"
definition StatusExitingRescueMode :: Status where "StatusExitingRescueMode = 19"
definition StatusFailedExitingRescueMode :: Status where "StatusFailedExitingRescueMode = 20"
definition StatusTesting :: Status where "StatusTesting = 21"
definition StatusFailedTesting :: Status where "StatusFailedTesting = 22"

text \<open>\<^verbatim>\<open>entity.Machine\<close>: the two fields the code reads.\<close>

record Machine =
  SystemID :: string
  machine_Status :: Status

text \<open>\<^verbatim>\<open>entity.NetworkInterfaceLink\<close>, \<^verbatim>\<open>entity.NetworkInterface\<close> and
  \<^verbatim>\<open>entity.NetworkInterfaceLinkParams\<close>. Identifiers are Go \<^verbatim>\<open>int\<close>s that the code only
  compares and passes on, so they are modelled as integers.\<close>

record NetworkInterfaceLink =
  link_ID :: int
  link_Mode :: string
  link_IPAddress :: string

record NetworkInterface =
  iface_ID :: int
  Links :: "NetworkInterfaceLink list"

record NetworkInterfaceLinkParams =
  params_Subnet :: int
  params_Mode :: string
  params_DefaultGateway :: bool
  params_IPAddress :: string

text \<open>
  Go's \<^verbatim>\<open>error\<close> values. The errors of the gateways are opaque to this code, which never
  inspects them; the model keeps a not-found answer apart from every other gateway failure
  so that statements can tell them apart. An error built by \<^verbatim>\<open>fmt.Errorf\<close> is kept as
  its format string with its arguments.
\<close>

datatype fmt_arg = ArgInt int | ArgString string | ArgStatus Status

datatype error =
    NotFound string
  | GatewayFailure string
  | Errorf string "fmt_arg list"

text \<open>What a Go function hands back: a value, an error, or a run-time panic.\<close>

datatype 'a outcome = Ok 'a | Err error | Panic string

section \<open>The gateways\<close>

text \<open>
  Every remote call the code makes, with its arguments. The history of calls made so far
  is the only state the program threads: the remote service is an arbitrary function of
  the calls it has received, so each operation of the client answers from the history and
  the arguments, and making a call appends it to the history.
\<close>

datatype call =
    MachineGet string
  | MachineAbort string string
  | MachineRelease string
  | MachineClearDefaultGateways string
  | NetworkInterfaceGet string int
  | NetworkInterfaceLinkSubnet string int NetworkInterfaceLinkParams
  | NetworkInterfaceUnlinkSubnet string int int
  | NetworkInterfaceSetDefaultGateway string int int

text \<open>Operations whose returned value the code discards (\<^verbatim>\<open>_, err = ...\<close>) answer with
  the error only.\<close>

record client =
  Machine_Get :: "call list \<Rightarrow> string \<Rightarrow> error + Machine"
  Machine_Abort :: "call list \<Rightarrow> string \<Rightarrow> string \<Rightarrow> error + Machine"
  Machine_Release :: "call list \<Rightarrow> string \<Rightarrow> error option"
  Machine_ClearDefaultGateways :: "call list \<Rightarrow> string \<Rightarrow> error option"
  NetworkInterface_Get :: "call list \<Rightarrow> string \<Rightarrow> int \<Rightarrow> error + NetworkInterface"
  NetworkInterface_LinkSubnet ::
    "call list \<Rightarrow> string \<Rightarrow> int \<Rightarrow> NetworkInterfaceLinkParams \<Rightarrow> error + NetworkInterface"
  NetworkInterface_UnlinkSubnet :: "call list \<Rightarrow> string \<Rightarrow> int \<Rightarrow> int \<Rightarrow> error option"
  NetworkInterface_SetDefaultGateway :: "call list \<Rightarrow> string \<Rightarrow> int \<Rightarrow> int \<Rightarrow> error option"

definition do_Machine_Get ::
  "client \<Rightarrow> string \<Rightarrow> call list \<Rightarrow> (error + Machine) \<times> call list" where
  "do_Machine_Get c sid h = (Machine_Get c h sid, h @ [MachineGet sid])"

definition do_Machine_Abort ::
  "client \<Rightarrow> string \<Rightarrow> string \<Rightarrow> call list \<Rightarrow> (error + Machine) \<times> call list" where
  "do_Machine_Abort c sid msg h = (Machine_Abort c h sid msg, h @ [MachineAbort sid msg])"

definition do_Machine_Release ::
  "client \<Rightarrow> string \<Rightarrow> call list \<Rightarrow> error option \<times> call list" where
  "do_Machine_Release c sid h = (Machine_Release c h sid, h @ [MachineRelease sid])"

definition do_Machine_ClearDefaultGateways ::
  "client \<Rightarrow> string \<Rightarrow> call list \<Rightarrow> error option \<times> call list" where
  "do_Machine_ClearDefaultGateways c sid h =
     (Machine_ClearDefaultGateways c h sid, h @ [MachineClearDefaultGateways sid])"

definition do_NetworkInterface_Get ::
  "client \<Rightarrow> string \<Rightarrow> int \<Rightarrow> call list \<Rightarrow> (error + NetworkInterface) \<times> call list" where
  "do_NetworkInterface_Get c sid ifid h =
     (NetworkInterface_Get c h sid ifid, h @ [NetworkInterfaceGet sid ifid])"

definition do_NetworkInterface_LinkSubnet ::
  "client \<Rightarrow> string \<Rightarrow> int \<Rightarrow> NetworkInterfaceLinkParams \<Rightarrow> call list
     \<Rightarrow> (error + NetworkInterface) \<times> call list" where
  "do_NetworkInterface_LinkSubnet c sid ifid params h =
     (NetworkInterface_LinkSubnet c h sid ifid params,
      h @ [NetworkInterfaceLinkSubnet sid ifid params])"

definition do_NetworkInterface_UnlinkSubnet ::
  "client \<Rightarrow> string \<Rightarrow> int \<Rightarrow> int \<Rightarrow> call list \<Rightarrow> error option \<times> call list" where
  "do_NetworkInterface_UnlinkSubnet c sid ifid lid h =
     (NetworkInterface_UnlinkSubnet c h sid ifid lid,
      h @ [NetworkInterfaceUnlinkSubnet sid ifid lid])"

definition do_NetworkInterface_SetDefaultGateway ::
  "client \<Rightarrow> string \<Rightarrow> int \<Rightarrow> int \<Rightarrow> call list \<Rightarrow> error option \<times> call list" where
  "do_NetworkInterface_SetDefaultGateway c sid ifid lid h =
     (NetworkInterface_SetDefaultGateway c h sid ifid lid,
      h @ [NetworkInterfaceSetDefaultGateway sid ifid lid])"

section \<open>The switch on the node status\<close>

text \<open>The case labels of the switch in \<^verbatim>\<open>unlinkSubnet\<close>, arm by arm, in source order.\<close>

definition valid_states :: "Status list" where
  "valid_states = [StatusNew, StatusReady, StatusAllocated, StatusBroken]"

definition transitional_states :: "Status list" where
  "transitional_states =
     [StatusCommissioning, StatusDeploying, StatusReleasing, StatusDiskErasing,
      StatusEnteringRescureMode, StatusExitingRescueMode, StatusTesting]"

definition non_transitional_states :: "Status list" where
  "non_transitional_states =
     [StatusFailedCommissioning, StatusMissing, StatusReserved, StatusDeployed,
      StatusRetired, StatusFailedDeployment, StatusFailedReleasing,
      StatusFailedDiskErasing, StatusRescueMode, StatusFailedEnteringRescueMode,
      StatusFailedExitingRescueMode, StatusFailedTesting]"

datatype category = Valid | Transitional | NonTransitional | Unknown

text \<open>The arm the switch takes: the first one, from the top, that lists the status; the
  default arm otherwise.\<close>

definition classify :: "Status \<Rightarrow> category" where
  "classify st =
     (if st \<in> set valid_states then Valid
      else if st \<in> set transitional_states then Transitional
      else if st \<in> set non_transitional_states then NonTransitional
      else Unknown)"

section \<open>Teardown of a link\<close>

definition eventLogMsg :: "string \<Rightarrow> string" where
  "eventLogMsg sid =
     ''Terraform requested machine '' @ sid @ '' be destroyed. Aborting current operation...''"

definition unlinkSubnet ::
  "client \<Rightarrow> string \<Rightarrow> int \<Rightarrow> int \<Rightarrow> call list \<Rightarrow> error option \<times> call list" where
  "unlinkSubnet c machineSystemID networkInterfaceID linkID h =
     (case do_Machine_Get c machineSystemID h of
        (Inl err, h1) \<Rightarrow> (None, h1)
      | (Inr machine, h1) \<Rightarrow>
          (case classify (machine_Status machine) of
             Valid \<Rightarrow>
               (case do_NetworkInterface_UnlinkSubnet c machineSystemID networkInterfaceID linkID h1 of
                  (Some err, h2) \<Rightarrow> (Some err, h2)
                | (None, h2) \<Rightarrow> (None, h2))
           | Transitional \<Rightarrow>
               (case do_Machine_Abort c (SystemID machine) (eventLogMsg (SystemID machine)) h1 of
                  (Inl err, h2) \<Rightarrow> (Some err, h2)
                | (Inr machine', h2) \<Rightarrow>
                    (case do_Machine_Release c (SystemID machine') h2 of
                       (Some err, h3) \<Rightarrow> (Some err, h3)
                     | (None, h3) \<Rightarrow>
                         (case do_NetworkInterface_UnlinkSubnet c machineSystemID
                                 networkInterfaceID linkID h3 of
                            (Some err, h4) \<Rightarrow> (Some err, h4)
                          | (None, h4) \<Rightarrow> (None, h4))))
           | NonTransitional \<Rightarrow>
               (case do_Machine_Release c (SystemID machine) h1 of
                  (Some err, h2) \<Rightarrow> (Some err, h2)
                | (None, h2) \<Rightarrow>
                    (case do_NetworkInterface_UnlinkSubnet c machineSystemID
                            networkInterfaceID linkID h2 of
                       (Some err, h3) \<Rightarrow> (Some err, h3)
                     | (None, h3) \<Rightarrow> (None, h3)))
           | Unknown \<Rightarrow>
               (Some (Errorf ''cannot unlink subnet from machine in status %v''
                        [ArgStatus (machine_Status machine)]), h1)))"

definition deleteNetworkInterfaceLink ::
  "client \<Rightarrow> string \<Rightarrow> int \<Rightarrow> int \<Rightarrow> call list \<Rightarrow> error option \<times> call list" where
  "deleteNetworkInterfaceLink c machineSystemID networkInterfaceID linkID h =
     unlinkSubnet c machineSystemID networkInterfaceID linkID h"

section \<open>Creating, reading and updating a link\<close>

text \<open>The loop \<^verbatim>\<open>for _, link := range networkInterface.Links\<close> of
  \<^verbatim>\<open>createNetworkInterfaceLink\<close>: it returns at the first teardown that reports an error.\<close>

fun clearLinks ::
  "client \<Rightarrow> string \<Rightarrow> int \<Rightarrow> NetworkInterfaceLink list \<Rightarrow> call list
     \<Rightarrow> error option \<times> call list" where
  "clearLinks c sid ifid [] h = (None, h)"
| "clearLinks c sid ifid (link # links) h =
     (case unlinkSubnet c sid ifid (link_ID link) h of
        (Some err, h') \<Rightarrow> (Some err, h')
      | (None, h') \<Rightarrow> clearLinks c sid ifid links h')"

text \<open>\<^verbatim>\<open>&networkInterface.Links[0]\<close> is an unchecked index: on an empty slice the Go
  run time panics.\<close>

definition createNetworkInterfaceLink ::
  "client \<Rightarrow> string \<Rightarrow> NetworkInterface \<Rightarrow> NetworkInterfaceLinkParams \<Rightarrow> call list
     \<Rightarrow> NetworkInterfaceLink outcome \<times> call list" where
  "createNetworkInterfaceLink c machineSystemID networkInterface params h =
     (case clearLinks c machineSystemID (iface_ID networkInterface) (Links networkInterface) h of
        (Some err, h1) \<Rightarrow> (Err err, h1)
      | (None, h1) \<Rightarrow>
          (case do_NetworkInterface_LinkSubnet c machineSystemID (iface_ID networkInterface)
                  params h1 of
             (Inl err, h2) \<Rightarrow> (Err err, h2)
           | (Inr networkInterface', h2) \<Rightarrow>
               (case Links networkInterface' of
                  [] \<Rightarrow> (Panic ''index out of range [0] with length 0'', h2)
                | link # _ \<Rightarrow> (Ok link, h2))))"

text \<open>The scan \<^verbatim>\<open>for _, link := range networkInterface.Links\<close> of
  \<^verbatim>\<open>getNetworkInterfaceLink\<close>: the first link with the wanted identifier.\<close>

fun scanLinks :: "NetworkInterfaceLink list \<Rightarrow> int \<Rightarrow> NetworkInterfaceLink option" where
  "scanLinks [] linkID = None"
| "scanLinks (link # links) linkID =
     (if link_ID link = linkID then Some link else scanLinks links linkID)"

definition getNetworkInterfaceLink ::
  "client \<Rightarrow> string \<Rightarrow> int \<Rightarrow> int \<Rightarrow> call list
     \<Rightarrow> (error + NetworkInterfaceLink) \<times> call list" where
  "getNetworkInterfaceLink c machineSystemID networkInterfaceID linkID h =
     (case do_NetworkInterface_Get c machineSystemID networkInterfaceID h of
        (Inl err, h1) \<Rightarrow> (Inl err, h1)
      | (Inr networkInterface, h1) \<Rightarrow>
          (case scanLinks (Links networkInterface) linkID of
             Some link \<Rightarrow> (Inr link, h1)
           | None \<Rightarrow>
               (Inl (Errorf
                  ''cannot find link (%v) on the network interface (%v) from machine (%s)''
                  [ArgInt linkID, ArgInt networkInterfaceID, ArgString machineSystemID]), h1)))"

text \<open>
  The update operation of \<^verbatim>\<open>resourceNetworkInterfaceLinkUpdate\<close> (the statements under
  \<^verbatim>\<open>// Run update operation\<close>), once the identifiers are resolved: \<open>systemID\<close>,
  \<open>networkInterfaceID\<close> and \<open>linkID\<close> are the resolved identifiers and \<open>default_gateway\<close>
  is \<^verbatim>\<open>d.Get("default_gateway").(bool)\<close>.
\<close>

definition runUpdateOperation ::
  "client \<Rightarrow> string \<Rightarrow> int \<Rightarrow> int \<Rightarrow> bool \<Rightarrow> call list \<Rightarrow> error option \<times> call list" where
  "runUpdateOperation c systemID networkInterfaceID linkID default_gateway h =
     (case do_Machine_ClearDefaultGateways c systemID h of
        (Some err, h1) \<Rightarrow> (Some err, h1)
      | (None, h1) \<Rightarrow>
          (if default_gateway then
             (case do_NetworkInterface_SetDefaultGateway c systemID networkInterfaceID linkID h1 of
                (Some err, h2) \<Rightarrow> (Some err, h2)
              | (None, h2) \<Rightarrow> (None, h2))
           else (None, h1)))"


section \<open>Sequences of teardowns\<close>

text \<open>
  The history after the first \<open>i\<close> links of a list have been torn down one after the
  other, each teardown starting from the history its predecessor left, and what the
  teardown of link number \<open>i\<close> reports when it starts there.
\<close>

fun teardown_history ::
  "client \<Rightarrow> string \<Rightarrow> int \<Rightarrow> NetworkInterfaceLink list \<Rightarrow> call list \<Rightarrow> nat \<Rightarrow> call list" where
  "teardown_history c sid ifid links h 0 = h"
| "teardown_history c sid ifid links h (Suc i) =
     snd (unlinkSubnet c sid ifid (link_ID (links ! i)) (teardown_history c sid ifid links h i))"

definition teardown_error ::
  "client \<Rightarrow> string \<Rightarrow> int \<Rightarrow> NetworkInterfaceLink list \<Rightarrow> call list \<Rightarrow> nat \<Rightarrow> error option" where
  "teardown_error c sid ifid links h i =
     fst (unlinkSubnet c sid ifid (link_ID (links ! i)) (teardown_history c sid ifid links h i))"

fun is_LinkSubnet :: "call \<Rightarrow> bool" where
  "is_LinkSubnet (NetworkInterfaceLinkSubnet sid ifid params) = True"
| "is_LinkSubnet _ = False"

fun is_MachineGet :: "call \<Rightarrow> bool" where
  "is_MachineGet (MachineGet sid) = True"
| "is_MachineGet _ = False"


section \<open>Concrete gateways\<close>

text \<open>
  A gateway on which every call succeeds: the node it reports has the given status, the
  interface it reports carries the links 41 and 42, and linking answers with an interface
  whose only link, 43, has the requested mode and address. The variants below make one
  operation fail.
\<close>

definition plain_link :: "int \<Rightarrow> NetworkInterfaceLink" where
  "plain_link n = \<lparr>link_ID = n, link_Mode = ''AUTO'', link_IPAddress = []\<rparr>"

definition steady_client :: "Status \<Rightarrow> client" where
  "steady_client st =
     \<lparr>Machine_Get = (\<lambda>h sid. Inr \<lparr>SystemID = sid, machine_Status = st\<rparr>),
      Machine_Abort = (\<lambda>h sid msg. Inr \<lparr>SystemID = sid, machine_Status = st\<rparr>),
      Machine_Release = (\<lambda>h sid. None),
      Machine_ClearDefaultGateways = (\<lambda>h sid. None),
      NetworkInterface_Get =
        (\<lambda>h sid ifid. Inr \<lparr>iface_ID = ifid, Links = [plain_link 41, plain_link 42]\<rparr>),
      NetworkInterface_LinkSubnet =
        (\<lambda>h sid ifid p. Inr \<lparr>iface_ID = ifid,
           Links = [\<lparr>link_ID = 43, link_Mode = params_Mode p,
                     link_IPAddress = params_IPAddress p\<rparr>]\<rparr>),
      NetworkInterface_UnlinkSubnet = (\<lambda>h sid ifid lid. None),
      NetworkInterface_SetDefaultGateway = (\<lambda>h sid ifid lid. None)\<rparr>"

definition unreachable_client :: client where
  "unreachable_client =
     (steady_client StatusReady)
       \<lparr>Machine_Get := (\<lambda>h sid. Inl (GatewayFailure ''connection refused''))\<rparr>"

definition gone_client :: client where
  "gone_client =
     (steady_client StatusReady)
       \<lparr>Machine_Get := (\<lambda>h sid. Inl (NotFound ''No Machine matches the given query.''))\<rparr>"

definition abort_failing_client :: client where
  "abort_failing_client =
     (steady_client StatusDeploying)
       \<lparr>Machine_Abort := (\<lambda>h sid msg. Inl (GatewayFailure ''abort refused''))\<rparr>"

definition release_failing_client :: "Status \<Rightarrow> client" where
  "release_failing_client st =
     (steady_client st)
       \<lparr>Machine_Release := (\<lambda>h sid. Some (GatewayFailure ''release refused''))\<rparr>"

definition unlink_failing_client :: "Status \<Rightarrow> client" where
  "unlink_failing_client st =
     (steady_client st)
       \<lparr>NetworkInterface_UnlinkSubnet :=
          (\<lambda>h sid ifid lid. Some (GatewayFailure ''unlink refused''))\<rparr>"

definition clear_failing_client :: client where
  "clear_failing_client =
     (steady_client StatusReady)
       \<lparr>Machine_ClearDefaultGateways :=
          (\<lambda>h sid. Some (GatewayFailure ''clear refused''))\<rparr>"

definition linkless_client :: client where
  "linkless_client =
     (steady_client StatusReady)
       \<lparr>NetworkInterface_LinkSubnet := (\<lambda>h sid ifid p. Inr \<lparr>iface_ID = ifid, Links = []\<rparr>)\<rparr>"

definition static_params :: NetworkInterfaceLinkParams where
  "static_params =
     \<lparr>params_Subnet = 3, params_Mode = ''STATIC'', params_DefaultGateway = False,
      params_IPAddress = ''10.0.0.5''\<rparr>"

definition two_link_interface :: NetworkInterface where
  "two_link_interface = \<lparr>iface_ID = 5, Links = [plain_link 41, plain_link 42]\<rparr>"

section \<open>Auxiliary facts\<close>

lemma do_simps:
  "do_Machine_Get c sid h = (Machine_Get c h sid, h @ [MachineGet sid])"
  "do_Machine_Abort c sid msg h = (Machine_Abort c h sid msg, h @ [MachineAbort sid msg])"
  "do_Machine_Release c sid h = (Machine_Release c h sid, h @ [MachineRelease sid])"
  "do_NetworkInterface_UnlinkSubnet c sid ifid lid h =
     (NetworkInterface_UnlinkSubnet c h sid ifid lid,
      h @ [NetworkInterfaceUnlinkSubnet sid ifid lid])"
  by (simp_all add: do_Machine_Get_def do_Machine_Abort_def do_Machine_Release_def
      do_NetworkInterface_UnlinkSubnet_def)

lemmas fixture_defs = steady_client_def unreachable_client_def gone_client_def
  abort_failing_client_def release_failing_client_def unlink_failing_client_def
  clear_failing_client_def linkless_client_def static_params_def two_link_interface_def
  plain_link_def

lemmas status_defs = StatusDefault_def StatusNew_def StatusCommissioning_def
  StatusFailedCommissioning_def StatusMissing_def StatusReady_def StatusReserved_def
  StatusDeployed_def StatusRetired_def StatusBroken_def StatusDeploying_def
  StatusAllocated_def StatusFailedDeployment_def StatusReleasing_def
  StatusFailedReleasing_def StatusDiskErasing_def StatusFailedDiskErasing_def
  StatusRescueMode_def StatusEnteringRescureMode_def StatusFailedEnteringRescueMode_def
  StatusExitingRescueMode_def StatusFailedExitingRescueMode_def StatusTesting_def
  StatusFailedTesting_def

lemmas state_defs = valid_states_def transitional_states_def non_transitional_states_def
  status_defs

lemma states_disjoint:
  "set valid_states \<inter> set transitional_states = {}"
  "set valid_states \<inter> set non_transitional_states = {}"
  "set transitional_states \<inter> set non_transitional_states = {}"
  by (simp_all add: state_defs)

lemma classify_Valid_iff: "classify st = Valid \<longleftrightarrow> st \<in> set valid_states"
  by (simp add: classify_def)

lemma classify_Transitional_iff:
  "classify st = Transitional \<longleftrightarrow> st \<in> set transitional_states"
  using states_disjoint(1) by (auto simp add: classify_def)

lemma classify_NonTransitional_iff:
  "classify st = NonTransitional \<longleftrightarrow> st \<in> set non_transitional_states"
  using states_disjoint(2,3) by (auto simp add: classify_def)

lemma classify_Unknown_iff:
  "classify st = Unknown \<longleftrightarrow>
     st \<notin> set valid_states \<union> set transitional_states \<union> set non_transitional_states"
  by (simp add: classify_def)

text \<open>Every teardown opens with the fetch of the node; whatever it does afterwards is
  neither another fetch of a node nor the creation of a link.\<close>

lemma unlinkSubnet_segment:
  "\<exists>seg. snd (unlinkSubnet c sid ifid lid h) = h @ MachineGet sid # seg
         \<and> (\<forall>x \<in> set seg. \<not> is_MachineGet x \<and> \<not> is_LinkSubnet x)"
  by (auto simp add: unlinkSubnet_def do_simps split: sum.split option.split category.split)

lemma teardown_history_Cons:
  "teardown_history c sid ifid (l # ls) h (Suc i) =
     teardown_history c sid ifid ls (snd (unlinkSubnet c sid ifid (link_ID l) h)) i"
  by (induction i) simp_all

lemma teardown_error_Cons:
  "teardown_error c sid ifid (l # ls) h (Suc i) =
     teardown_error c sid ifid ls (snd (unlinkSubnet c sid ifid (link_ID l) h)) i"
  unfolding teardown_error_def teardown_history_Cons by simp

lemma teardown_error_0:
  "teardown_error c sid ifid (l # ls) h 0 = fst (unlinkSubnet c sid ifid (link_ID l) h)"
  by (simp add: teardown_error_def)

text \<open>The loop of Create against the sequence of teardowns: it runs through when none
  reports an error, and stops behind the first one that does.\<close>

lemma clearLinks_all_ok:
  "(\<forall>i < length ls. teardown_error c sid ifid ls h i = None) \<Longrightarrow>
   clearLinks c sid ifid ls h = (None, teardown_history c sid ifid ls h (length ls))"
proof (induction ls arbitrary: h)
  case Nil
  show ?case by simp
next
  case (Cons l ls)
  obtain r h' where step: "unlinkSubnet c sid ifid (link_ID l) h = (r, h')"
    by (cases "unlinkSubnet c sid ifid (link_ID l) h")
  from Cons.prems step have first: "r = None"
    using teardown_error_0 [of c sid ifid l ls h] by auto
  from Cons.prems step have rest: "\<forall>i < length ls. teardown_error c sid ifid ls h' i = None"
    using teardown_error_Cons [of c sid ifid l ls h] by auto
  have "teardown_history c sid ifid (l # ls) h (Suc (length ls))
          = teardown_history c sid ifid ls h' (length ls)"
    using step by (simp only: teardown_history_Cons snd_conv)
  then show ?case
    using Cons.IH [OF rest] step first by simp
qed

lemma clearLinks_first_error:
  "k < length ls \<Longrightarrow> (\<forall>i < k. teardown_error c sid ifid ls h i = None) \<Longrightarrow>
   teardown_error c sid ifid ls h k = Some e \<Longrightarrow>
   clearLinks c sid ifid ls h = (Some e, teardown_history c sid ifid ls h (Suc k))"
proof (induction ls arbitrary: h k)
  case Nil
  then show ?case by simp
next
  case (Cons l ls)
  obtain r h' where step: "unlinkSubnet c sid ifid (link_ID l) h = (r, h')"
    by (cases "unlinkSubnet c sid ifid (link_ID l) h")
  show ?case
  proof (cases k)
    case 0
    with Cons.prems step have "r = Some e"
      by (simp add: teardown_error_0)
    with 0 step show ?thesis by simp
  next
    case (Suc j)
    from Cons.prems Suc step have first: "r = None"
      using teardown_error_0 [of c sid ifid l ls h] by auto
    from Cons.prems Suc have j: "j < length ls" by simp
    from Cons.prems Suc step have before: "\<forall>i < j. teardown_error c sid ifid ls h' i = None"
      using teardown_error_Cons [of c sid ifid l ls h] by auto
    from Cons.prems Suc step have at: "teardown_error c sid ifid ls h' j = Some e"
      by (simp add: teardown_error_Cons)
    have "teardown_history c sid ifid (l # ls) h (Suc (Suc j))
            = teardown_history c sid ifid ls h' (Suc j)"
      using step by (simp only: teardown_history_Cons snd_conv)
    then show ?thesis
      using Cons.IH [OF j before at] step first Suc by simp
  qed
qed

lemma teardown_history_segment:
  "\<exists>seg. teardown_history c sid ifid ls h k = h @ seg
         \<and> length (filter is_MachineGet seg) = k
         \<and> (\<forall>x \<in> set seg. \<not> is_LinkSubnet x)"
proof (induction k)
  case 0
  show ?case by simp
next
  case (Suc k)
  then obtain seg where seg: "teardown_history c sid ifid ls h k = h @ seg"
    "length (filter is_MachineGet seg) = k" "\<forall>x \<in> set seg. \<not> is_LinkSubnet x"
    by blast
  obtain seg' where seg': "snd (unlinkSubnet c sid ifid (link_ID (ls ! k)) (h @ seg))
      = (h @ seg) @ MachineGet sid # seg'"
    "\<forall>x \<in> set seg'. \<not> is_MachineGet x \<and> \<not> is_LinkSubnet x"
    using unlinkSubnet_segment [of c sid ifid "link_ID (ls ! k)" "h @ seg"] by blast
  have f: "filter is_MachineGet seg' = []"
    using seg'(2) by (simp add: filter_empty_conv)
  show ?case
    apply (rule exI [of _ "seg @ MachineGet sid # seg'"])
    using seg seg' f by auto
qed

lemma all_less_2: "(\<forall>i < (2::nat). P i) \<longleftrightarrow> P 0 \<and> P (Suc 0)"
  by (auto simp add: less_Suc_eq numeral_2_eq_2)

lemma unlinkSubnet_steady_Ready:
  "unlinkSubnet (steady_client StatusReady) sid ifid lid h =
     (None, h @ [MachineGet sid, NetworkInterfaceUnlinkSubnet sid ifid lid])"
  by (simp add: unlinkSubnet_def do_simps steady_client_def classify_def state_defs)

lemma unlinkSubnet_linkless:
  "unlinkSubnet linkless_client sid ifid lid h =
     (None, h @ [MachineGet sid, NetworkInterfaceUnlinkSubnet sid ifid lid])"
  by (simp add: unlinkSubnet_def do_simps steady_client_def linkless_client_def classify_def
      state_defs)

lemma unlinkSubnet_release_failing_Deployed:
  "unlinkSubnet (release_failing_client StatusDeployed) sid ifid lid h =
     (Some (GatewayFailure ''release refused''), h @ [MachineGet sid, MachineRelease sid])"
  by (simp add: unlinkSubnet_def do_simps steady_client_def release_failing_client_def
      classify_def state_defs)

lemma scanLinks_find: "scanLinks ls lid = find (\<lambda>l. link_ID l = lid) ls"
  by (induction ls) simp_all

lemma scanLinks_Some:
  "scanLinks ls lid = Some l \<Longrightarrow> l \<in> set ls \<and> link_ID l = lid"
  by (induction ls) (auto split: if_splits)

lemma scanLinks_None: "scanLinks ls lid = None \<longleftrightarrow> lid \<notin> link_ID ` set ls"
  by (induction ls) auto

section \<open>The teardown orchestrator\<close>

text \<open>What the code does on a failed fetch of the node, whatever the error: it reports
  success, and the fetch is the only call it has made.\<close>

lemma unlinkSubnet_fetch_error_noop:
  assumes "Machine_Get c h sid = Inl e"
  shows "unlinkSubnet c sid ifid lid h = (None, h @ [MachineGet sid])"
  using assms by (simp add: unlinkSubnet_def do_simps)

text \<open>
  Claim C1. A teardown whose fetch of the node fails with a not-found error is to return
  success without any further call, and one whose fetch fails with any other error is to
  return that error unchanged. The comments of \<^verbatim>\<open>unlinkSubnet\<close> give the no-op for a
  machine that does not or no longer exists, and every other gateway error of the
  function is returned. The code does the first half: on the gateway that answers
  not-found the teardown returns success after the fetch alone. It misses the second: on
  a gateway whose fetch fails with a refused connection the teardown returns success as
  well, after the fetch alone, and the error is lost.
\<close>

theorem unlinkSubnet_fetch_failure_not_propagated:
  "Machine_Get gone_client [] ''node1'' = Inl (NotFound ''No Machine matches the given query.'')
   \<and> unlinkSubnet gone_client ''node1'' 5 42 [] = (None, [MachineGet ''node1''])
   \<and> Machine_Get unreachable_client [] ''node1'' = Inl (GatewayFailure ''connection refused'')
   \<and> unlinkSubnet unreachable_client ''node1'' 5 42 [] = (None, [MachineGet ''node1''])
   \<and> fst (unlinkSubnet unreachable_client ''node1'' 5 42 [])
        \<noteq> Some (GatewayFailure ''connection refused'')"
  by (simp add: unlinkSubnet_def do_simps fixture_defs)

text \<open>
  Claim C2. For a node fetched with a status of the transitional arm, the calls that
  follow the fetch are the abort (on the fetched node, with the audit message), the
  release (on the node the abort answered with) and the unlink, in this order. When the
  abort fails its error is returned and neither release nor unlink is called; when the
  release fails its error is returned and unlink is not called; otherwise the result is
  the answer of the unlink.
\<close>

theorem unlinkSubnet_transitional:
  assumes "Machine_Get c h sid = Inr m" and "machine_Status m \<in> set transitional_states"
  defines "h1 \<equiv> h @ [MachineGet sid]"
    and "abort \<equiv> MachineAbort (SystemID m) (eventLogMsg (SystemID m))"
  shows
    "(\<forall>e. Machine_Abort c h1 (SystemID m) (eventLogMsg (SystemID m)) = Inl e \<longrightarrow>
        unlinkSubnet c sid ifid lid h = (Some e, h1 @ [abort]))
   \<and> (\<forall>m'. Machine_Abort c h1 (SystemID m) (eventLogMsg (SystemID m)) = Inr m' \<longrightarrow>
        (\<forall>e. Machine_Release c (h1 @ [abort]) (SystemID m') = Some e \<longrightarrow>
           unlinkSubnet c sid ifid lid h = (Some e, h1 @ [abort, MachineRelease (SystemID m')]))
      \<and> (Machine_Release c (h1 @ [abort]) (SystemID m') = None \<longrightarrow>
           unlinkSubnet c sid ifid lid h =
             (NetworkInterface_UnlinkSubnet c (h1 @ [abort, MachineRelease (SystemID m')])
                sid ifid lid,
              h1 @ [abort, MachineRelease (SystemID m'),
                    NetworkInterfaceUnlinkSubnet sid ifid lid])))"
  using assms(1,2) unfolding h1_def abort_def
  by (simp add: unlinkSubnet_def do_simps classify_Transitional_iff [symmetric]
      split: option.split)

theorem unlinkSubnet_transitional_witness:
  "Machine_Get (steady_client StatusDeploying) [] ''node1''
     = Inr \<lparr>SystemID = ''node1'', machine_Status = StatusDeploying\<rparr>
   \<and> StatusDeploying \<in> set transitional_states
   \<and> unlinkSubnet (steady_client StatusDeploying) ''node1'' 5 42 [] =
       (None, [MachineGet ''node1'',
               MachineAbort ''node1'' (eventLogMsg ''node1''),
               MachineRelease ''node1'',
               NetworkInterfaceUnlinkSubnet ''node1'' 5 42])
   \<and> unlinkSubnet abort_failing_client ''node1'' 5 42 [] =
       (Some (GatewayFailure ''abort refused''),
        [MachineGet ''node1'', MachineAbort ''node1'' (eventLogMsg ''node1'')])
   \<and> unlinkSubnet (release_failing_client StatusDeploying) ''node1'' 5 42 [] =
       (Some (GatewayFailure ''release refused''),
        [MachineGet ''node1'', MachineAbort ''node1'' (eventLogMsg ''node1''),
         MachineRelease ''node1''])"
proof -
  let ?m = "\<lparr>SystemID = ''node1'', machine_Status = StatusDeploying\<rparr>"
  have st: "machine_Status ?m \<in> set transitional_states"
    by (simp add: state_defs)
  have g1: "Machine_Get (steady_client StatusDeploying) [] ''node1'' = Inr ?m"
    by (simp add: fixture_defs)
  have g2: "Machine_Get abort_failing_client [] ''node1'' = Inr ?m"
    by (simp add: fixture_defs)
  have g3: "Machine_Get (release_failing_client StatusDeploying) [] ''node1'' = Inr ?m"
    by (simp add: fixture_defs)
  show ?thesis
    using st g1
      unlinkSubnet_transitional [OF g1 st, of 5 42]
      unlinkSubnet_transitional [OF g2 st, of 5 42]
      unlinkSubnet_transitional [OF g3 st, of 5 42]
    by (simp add: fixture_defs)
qed

text \<open>
  Claim C4. For a node fetched with a status of the non-transitional arm, the calls that
  follow the fetch are the release and the unlink, in this order, and no abort. When the
  release fails its error is returned and unlink is not called; otherwise the result is
  the answer of the unlink.
\<close>

theorem unlinkSubnet_non_transitional:
  assumes "Machine_Get c h sid = Inr m" and "machine_Status m \<in> set non_transitional_states"
  defines "h1 \<equiv> h @ [MachineGet sid]"
  shows
    "(\<forall>e. Machine_Release c h1 (SystemID m) = Some e \<longrightarrow>
        unlinkSubnet c sid ifid lid h = (Some e, h1 @ [MachineRelease (SystemID m)]))
   \<and> (Machine_Release c h1 (SystemID m) = None \<longrightarrow>
        unlinkSubnet c sid ifid lid h =
          (NetworkInterface_UnlinkSubnet c (h1 @ [MachineRelease (SystemID m)]) sid ifid lid,
           h1 @ [MachineRelease (SystemID m), NetworkInterfaceUnlinkSubnet sid ifid lid]))"
  using assms(1,2) unfolding h1_def
  by (simp add: unlinkSubnet_def do_simps classify_NonTransitional_iff [symmetric]
      split: option.split)

theorem unlinkSubnet_non_transitional_witness:
  "Machine_Get (steady_client StatusDeployed) [] ''node1''
     = Inr \<lparr>SystemID = ''node1'', machine_Status = StatusDeployed\<rparr>
   \<and> StatusDeployed \<in> set non_transitional_states
   \<and> unlinkSubnet (steady_client StatusDeployed) ''node1'' 5 42 [] =
       (None, [MachineGet ''node1'', MachineRelease ''node1'',
               NetworkInterfaceUnlinkSubnet ''node1'' 5 42])
   \<and> unlinkSubnet (release_failing_client StatusDeployed) ''node1'' 5 42 [] =
       (Some (GatewayFailure ''release refused''),
        [MachineGet ''node1'', MachineRelease ''node1''])"
proof -
  let ?m = "\<lparr>SystemID = ''node1'', machine_Status = StatusDeployed\<rparr>"
  have st: "machine_Status ?m \<in> set non_transitional_states"
    by (simp add: state_defs)
  have g1: "Machine_Get (steady_client StatusDeployed) [] ''node1'' = Inr ?m"
    by (simp add: fixture_defs)
  have g3: "Machine_Get (release_failing_client StatusDeployed) [] ''node1'' = Inr ?m"
    by (simp add: fixture_defs)
  show ?thesis
    using st g1
      unlinkSubnet_non_transitional [OF g1 st, of 5 42]
      unlinkSubnet_non_transitional [OF g3 st, of 5 42]
    by (simp add: fixture_defs)
qed

text \<open>
  Claim C5. For a node fetched with a status of the valid arm, the unlink is the only
  call that follows the fetch, so neither abort nor release is made, and the teardown
  returns what the unlink answered, its error included.
\<close>

theorem unlinkSubnet_valid:
  assumes "Machine_Get c h sid = Inr m" and "machine_Status m \<in> set valid_states"
  shows "unlinkSubnet c sid ifid lid h =
           (NetworkInterface_UnlinkSubnet c (h @ [MachineGet sid]) sid ifid lid,
            h @ [MachineGet sid, NetworkInterfaceUnlinkSubnet sid ifid lid])"
  using assms
  by (simp add: unlinkSubnet_def do_simps classify_Valid_iff [symmetric] split: option.split)

theorem unlinkSubnet_valid_witness:
  "Machine_Get (steady_client StatusReady) [] ''node1''
     = Inr \<lparr>SystemID = ''node1'', machine_Status = StatusReady\<rparr>
   \<and> StatusReady \<in> set valid_states
   \<and> unlinkSubnet (steady_client StatusReady) ''node1'' 5 42 [] =
       (None, [MachineGet ''node1'', NetworkInterfaceUnlinkSubnet ''node1'' 5 42])
   \<and> unlinkSubnet (unlink_failing_client StatusBroken) ''node1'' 5 42 [] =
       (Some (GatewayFailure ''unlink refused''),
        [MachineGet ''node1'', NetworkInterfaceUnlinkSubnet ''node1'' 5 42])"
proof -
  let ?m = "\<lparr>SystemID = ''node1'', machine_Status = StatusReady\<rparr>"
  let ?b = "\<lparr>SystemID = ''node1'', machine_Status = StatusBroken\<rparr>"
  have st: "machine_Status ?m \<in> set valid_states" "machine_Status ?b \<in> set valid_states"
    by (simp_all add: state_defs)
  have g1: "Machine_Get (steady_client StatusReady) [] ''node1'' = Inr ?m"
    by (simp add: fixture_defs)
  have g2: "Machine_Get (unlink_failing_client StatusBroken) [] ''node1'' = Inr ?b"
    by (simp add: fixture_defs)
  show ?thesis
    using st g1
      unlinkSubnet_valid [OF g1 st(1), of 5 42]
      unlinkSubnet_valid [OF g2 st(2), of 5 42]
    by (simp add: fixture_defs)
qed

text \<open>
  Claim C6. For a node fetched with a status that none of the three arms lists, the
  teardown fails with an error that carries that status, and the fetch is the only call
  it has made.
\<close>

theorem unlinkSubnet_unknown:
  assumes "Machine_Get c h sid = Inr m"
    and "machine_Status m \<notin> set valid_states \<union> set transitional_states
           \<union> set non_transitional_states"
  shows "unlinkSubnet c sid ifid lid h =
           (Some (Errorf ''cannot unlink subnet from machine in status %v''
                    [ArgStatus (machine_Status m)]), h @ [MachineGet sid])"
  using assms by (simp add: unlinkSubnet_def do_simps classify_def)

theorem unlinkSubnet_unknown_witness:
  "Machine_Get (steady_client 99) [] ''node1''
     = Inr \<lparr>SystemID = ''node1'', machine_Status = 99\<rparr>
   \<and> 99 \<notin> set valid_states \<union> set transitional_states
         \<union> set non_transitional_states
   \<and> unlinkSubnet (steady_client 99) ''node1'' 5 42 [] =
       (Some (Errorf ''cannot unlink subnet from machine in status %v''
                [ArgStatus 99]), [MachineGet ''node1''])"
proof -
  let ?m = "\<lparr>SystemID = ''node1'', machine_Status = 99\<rparr>"
  have st: "machine_Status ?m \<notin> set valid_states \<union> set transitional_states
         \<union> set non_transitional_states"
    by (simp add: state_defs)
  have g1: "Machine_Get (steady_client 99) [] ''node1'' = Inr ?m"
    by (simp add: fixture_defs)
  show ?thesis
    using st g1 unlinkSubnet_unknown [OF g1 st, of 5 42] by simp
qed

text \<open>
  Claim C9. The choice of the arm is a function of the status alone, and every status is
  sent to exactly one of the four categories. The case labels of the three arms are
  pairwise different; a status is sent to an arm exactly when that arm lists it, and to
  the default arm exactly when no arm lists it, which are the integers below 0 and above
  22. The default status, being the number of the new status, is sent to the valid arm.
\<close>

theorem classify_partition:
  "distinct (valid_states @ transitional_states @ non_transitional_states)
   \<and> (\<exists>!k. classify st = k)
   \<and> (classify st = Valid \<longleftrightarrow> st \<in> set valid_states)
   \<and> (classify st = Transitional \<longleftrightarrow> st \<in> set transitional_states)
   \<and> (classify st = NonTransitional \<longleftrightarrow> st \<in> set non_transitional_states)
   \<and> (classify st = Unknown \<longleftrightarrow>
        st \<notin> set valid_states \<union> set transitional_states \<union> set non_transitional_states)
   \<and> (classify st = Unknown \<longleftrightarrow> st < 0 \<or> 22 < st)
   \<and> classify StatusDefault = Valid"
proof -
  have d: "distinct (valid_states @ transitional_states @ non_transitional_states)"
    by (simp add: state_defs)
  have one: "\<exists>!k. classify st = k"
    by simp
  have r: "classify st = Unknown \<longleftrightarrow> st < 0 \<or> 22 < st"
    unfolding classify_Unknown_iff by (simp add: state_defs) arith
  have u: "classify StatusDefault = Valid"
    by (simp add: classify_def state_defs)
  show ?thesis
    using d one r u classify_Valid_iff classify_Transitional_iff classify_NonTransitional_iff
      classify_Unknown_iff by blast
qed

section \<open>The link binding manager\<close>

text \<open>
  Claim C3. Let the interface handed to Create carry N links. When none of the N
  teardowns, run one after the other in the order of the links, reports an error, Create
  has made exactly the calls of these N teardowns followed by the one creation call, and
  it returns the error of the creation call or else the first link of the interface the
  creation call answered with. When the teardown of link number k is the first to report
  an error, Create returns that error and has made the calls of the teardowns up to and
  including that one, and nothing more. The calls of k teardowns hold k fetches of the
  node, one for each teardown, and no creation call.
\<close>

theorem create_clears_then_links:
  fixes c sid ni params h
  defines "ifid \<equiv> iface_ID ni" and "ls \<equiv> Links ni"
  shows
   "((\<forall>i < length ls. teardown_error c sid ifid ls h i = None) \<longrightarrow>
       createNetworkInterfaceLink c sid ni params h =
         (case NetworkInterface_LinkSubnet c (teardown_history c sid ifid ls h (length ls))
                 sid ifid params of
            Inl err \<Rightarrow> Err err
          | Inr ni' \<Rightarrow>
              (case Links ni' of
                 [] \<Rightarrow> Panic ''index out of range [0] with length 0''
               | link # _ \<Rightarrow> Ok link),
          teardown_history c sid ifid ls h (length ls)
            @ [NetworkInterfaceLinkSubnet sid ifid params]))
    \<and> (\<forall>k < length ls. \<forall>e.
          (\<forall>i < k. teardown_error c sid ifid ls h i = None)
          \<and> teardown_error c sid ifid ls h k = Some e \<longrightarrow>
          createNetworkInterfaceLink c sid ni params h
            = (Err e, teardown_history c sid ifid ls h (Suc k)))
    \<and> (\<forall>k. \<exists>seg. teardown_history c sid ifid ls h k = h @ seg
          \<and> length (filter is_MachineGet seg) = k
          \<and> (\<forall>x \<in> set seg. \<not> is_LinkSubnet x))"
proof (intro conjI impI allI)
  assume ok: "\<forall>i < length ls. teardown_error c sid ifid ls h i = None"
  show "createNetworkInterfaceLink c sid ni params h =
         (case NetworkInterface_LinkSubnet c (teardown_history c sid ifid ls h (length ls))
                 sid ifid params of
            Inl err \<Rightarrow> Err err
          | Inr ni' \<Rightarrow>
              (case Links ni' of
                 [] \<Rightarrow> Panic ''index out of range [0] with length 0''
               | link # _ \<Rightarrow> Ok link),
          teardown_history c sid ifid ls h (length ls)
            @ [NetworkInterfaceLinkSubnet sid ifid params])"
    using clearLinks_all_ok [OF ok]
    by (simp add: createNetworkInterfaceLink_def do_NetworkInterface_LinkSubnet_def
        ifid_def ls_def split: sum.split list.split)
next
  fix k e
  assume k: "k < length ls"
    and err: "(\<forall>i < k. teardown_error c sid ifid ls h i = None)
          \<and> teardown_error c sid ifid ls h k = Some e"
  show "createNetworkInterfaceLink c sid ni params h
            = (Err e, teardown_history c sid ifid ls h (Suc k))"
    using clearLinks_first_error [OF k, of c sid ifid h e] err
    by (simp add: createNetworkInterfaceLink_def ifid_def ls_def)
next
  fix k
  show "\<exists>seg. teardown_history c sid ifid ls h k = h @ seg
          \<and> length (filter is_MachineGet seg) = k
          \<and> (\<forall>x \<in> set seg. \<not> is_LinkSubnet x)"
    by (rule teardown_history_segment)
qed

theorem create_clears_then_links_witness:
  "length (Links two_link_interface) = 2
   \<and> teardown_error (steady_client StatusReady) ''node1'' (iface_ID two_link_interface)
        (Links two_link_interface) [] 0 = None
   \<and> teardown_error (steady_client StatusReady) ''node1'' (iface_ID two_link_interface)
        (Links two_link_interface) [] 1 = None
   \<and> createNetworkInterfaceLink (steady_client StatusReady) ''node1'' two_link_interface
        static_params [] =
       (Ok \<lparr>link_ID = 43, link_Mode = ''STATIC'', link_IPAddress = ''10.0.0.5''\<rparr>,
        [MachineGet ''node1'', NetworkInterfaceUnlinkSubnet ''node1'' 5 41,
         MachineGet ''node1'', NetworkInterfaceUnlinkSubnet ''node1'' 5 42,
         NetworkInterfaceLinkSubnet ''node1'' 5 static_params])
   \<and> (0::nat) < length (Links two_link_interface)
   \<and> teardown_error (release_failing_client StatusDeployed) ''node1''
        (iface_ID two_link_interface) (Links two_link_interface) [] 0
       = Some (GatewayFailure ''release refused'')
   \<and> createNetworkInterfaceLink (release_failing_client StatusDeployed) ''node1''
        two_link_interface static_params [] =
       (Err (GatewayFailure ''release refused''),
        [MachineGet ''node1'', MachineRelease ''node1''])"
proof -
  have ifid: "iface_ID two_link_interface = 5"
    and ls: "Links two_link_interface = [plain_link 41, plain_link 42]"
    by (simp_all add: two_link_interface_def)
  have len: "length (Links two_link_interface) = Suc (Suc 0)"
    by (simp add: ls)
  have hist: "teardown_history (steady_client StatusReady) ''node1'' 5
             [plain_link 41, plain_link 42] [] (Suc (Suc 0))
           = [MachineGet ''node1'', NetworkInterfaceUnlinkSubnet ''node1'' 5 41,
              MachineGet ''node1'', NetworkInterfaceUnlinkSubnet ''node1'' 5 42]"
    by (simp add: unlinkSubnet_steady_Ready plain_link_def)
  have ok: "\<forall>i < length (Links two_link_interface).
      teardown_error (steady_client StatusReady) ''node1'' (iface_ID two_link_interface)
        (Links two_link_interface) [] i = None"
    by (simp add: ifid ls all_less_2 teardown_error_def unlinkSubnet_steady_Ready)
  from create_clears_then_links [where c = "steady_client StatusReady" and sid = "''node1''"
      and ni = two_link_interface and h = "[]" and params = static_params] ok
  have "createNetworkInterfaceLink (steady_client StatusReady) ''node1'' two_link_interface
        static_params [] =
         (case NetworkInterface_LinkSubnet (steady_client StatusReady)
                 (teardown_history (steady_client StatusReady) ''node1''
                    (iface_ID two_link_interface) (Links two_link_interface) []
                    (length (Links two_link_interface)))
                 ''node1'' (iface_ID two_link_interface) static_params of
            Inl err \<Rightarrow> Err err
          | Inr ni' \<Rightarrow>
              (case Links ni' of
                 [] \<Rightarrow> Panic ''index out of range [0] with length 0''
               | link # _ \<Rightarrow> Ok link),
          teardown_history (steady_client StatusReady) ''node1''
              (iface_ID two_link_interface) (Links two_link_interface) []
              (length (Links two_link_interface))
            @ [NetworkInterfaceLinkSubnet ''node1'' (iface_ID two_link_interface) static_params])"
    by blast
  then have good: "createNetworkInterfaceLink (steady_client StatusReady) ''node1''
        two_link_interface static_params [] =
       (Ok \<lparr>link_ID = 43, link_Mode = ''STATIC'', link_IPAddress = ''10.0.0.5''\<rparr>,
        [MachineGet ''node1'', NetworkInterfaceUnlinkSubnet ''node1'' 5 41,
         MachineGet ''node1'', NetworkInterfaceUnlinkSubnet ''node1'' 5 42,
         NetworkInterfaceLinkSubnet ''node1'' 5 static_params])"
    unfolding len ifid unfolding ls hist
    by (simp add: steady_client_def static_params_def)
  have pos: "(0::nat) < length (Links two_link_interface)"
    by (simp add: ls)
  have bad0: "teardown_error (release_failing_client StatusDeployed) ''node1''
        (iface_ID two_link_interface) (Links two_link_interface) [] 0
       = Some (GatewayFailure ''release refused'')"
    by (simp add: teardown_error_def unlinkSubnet_release_failing_Deployed)
  from create_clears_then_links [where c = "release_failing_client StatusDeployed"
      and sid = "''node1''" and ni = two_link_interface and h = "[]"
      and params = static_params] pos bad0
  have "createNetworkInterfaceLink (release_failing_client StatusDeployed) ''node1''
        two_link_interface static_params [] =
       (Err (GatewayFailure ''release refused''),
        teardown_history (release_failing_client StatusDeployed) ''node1''
          (iface_ID two_link_interface) (Links two_link_interface) [] (Suc 0))"
    by blast
  then have bad: "createNetworkInterfaceLink (release_failing_client StatusDeployed) ''node1''
        two_link_interface static_params [] =
       (Err (GatewayFailure ''release refused''),
        [MachineGet ''node1'', MachineRelease ''node1''])"
    by (simp add: unlinkSubnet_release_failing_Deployed)
  have two: "length (Links two_link_interface) = 2"
    by (simp add: ls)
  from ok two
  have each: "teardown_error (steady_client StatusReady) ''node1''
        (iface_ID two_link_interface) (Links two_link_interface) [] 0 = None"
    "teardown_error (steady_client StatusReady) ''node1''
        (iface_ID two_link_interface) (Links two_link_interface) [] 1 = None"
    by simp_all
  from two each good pos bad0 bad show ?thesis by blast
qed

text \<open>
  Claim C10. Once the teardowns have gone through and the creation call has answered with
  an interface, Create takes the first element of that interface's links without looking
  at their number: it returns a link, the first one, exactly when the links are not
  empty, and on an interface without links the index is out of range and the run stops
  in a panic.
\<close>

theorem create_first_link_unchecked:
  assumes "clearLinks c sid (iface_ID ni) (Links ni) h = (None, h1)"
    and "NetworkInterface_LinkSubnet c h1 sid (iface_ID ni) params = Inr ni'"
  shows "(Links ni' \<noteq> [] \<longrightarrow>
            fst (createNetworkInterfaceLink c sid ni params h) = Ok (hd (Links ni')))
       \<and> (Links ni' = [] \<longrightarrow>
            fst (createNetworkInterfaceLink c sid ni params h)
              = Panic ''index out of range [0] with length 0'')
       \<and> ((\<exists>link. fst (createNetworkInterfaceLink c sid ni params h) = Ok link)
            \<longleftrightarrow> Links ni' \<noteq> [])"
  using assms
  by (auto simp add: createNetworkInterfaceLink_def do_NetworkInterface_LinkSubnet_def
      split: list.split)

theorem create_first_link_unchecked_witness:
  "clearLinks linkless_client ''node1'' (iface_ID two_link_interface)
       (Links two_link_interface) [] =
     (None, [MachineGet ''node1'', NetworkInterfaceUnlinkSubnet ''node1'' 5 41,
             MachineGet ''node1'', NetworkInterfaceUnlinkSubnet ''node1'' 5 42])
   \<and> NetworkInterface_LinkSubnet linkless_client
        [MachineGet ''node1'', NetworkInterfaceUnlinkSubnet ''node1'' 5 41,
         MachineGet ''node1'', NetworkInterfaceUnlinkSubnet ''node1'' 5 42]
        ''node1'' (iface_ID two_link_interface) static_params
       = Inr \<lparr>iface_ID = 5, Links = []\<rparr>
   \<and> fst (createNetworkInterfaceLink linkless_client ''node1'' two_link_interface
            static_params [])
       = Panic ''index out of range [0] with length 0''"
proof -
  have a: "clearLinks linkless_client ''node1'' (iface_ID two_link_interface)
       (Links two_link_interface) [] =
     (None, [MachineGet ''node1'', NetworkInterfaceUnlinkSubnet ''node1'' 5 41,
             MachineGet ''node1'', NetworkInterfaceUnlinkSubnet ''node1'' 5 42])"
    by (simp add: two_link_interface_def unlinkSubnet_linkless plain_link_def)
  have b: "NetworkInterface_LinkSubnet linkless_client
        [MachineGet ''node1'', NetworkInterfaceUnlinkSubnet ''node1'' 5 41,
         MachineGet ''node1'', NetworkInterfaceUnlinkSubnet ''node1'' 5 42]
        ''node1'' (iface_ID two_link_interface) static_params
       = Inr \<lparr>iface_ID = 5, Links = []\<rparr>"
    by (simp add: linkless_client_def two_link_interface_def)
  show ?thesis
    using a b create_first_link_unchecked [OF a b] by simp
qed

text \<open>
  Claim C8. Read makes one call, the fetch of the interface, and nothing that changes the
  remote state. A fetch error is returned as it is. Otherwise, when a link of the fetched
  interface has the wanted identifier, Read returns the first such link; when none has,
  it fails with the error whose arguments are the link, the interface and the node. The
  result is determined by the answer of the fetch.
\<close>

theorem getNetworkInterfaceLink_scan:
  "snd (getNetworkInterfaceLink c sid ifid lid h) = h @ [NetworkInterfaceGet sid ifid]
   \<and> (\<forall>e. NetworkInterface_Get c h sid ifid = Inl e \<longrightarrow>
         fst (getNetworkInterfaceLink c sid ifid lid h) = Inl e)
   \<and> (\<forall>ni. NetworkInterface_Get c h sid ifid = Inr ni \<longrightarrow>
         (lid \<in> link_ID ` set (Links ni) \<longrightarrow>
            (\<exists>l. fst (getNetworkInterfaceLink c sid ifid lid h) = Inr l
                 \<and> find (\<lambda>l. link_ID l = lid) (Links ni) = Some l
                 \<and> l \<in> set (Links ni) \<and> link_ID l = lid))
       \<and> (lid \<notin> link_ID ` set (Links ni) \<longrightarrow>
            fst (getNetworkInterfaceLink c sid ifid lid h) =
              Inl (Errorf
                ''cannot find link (%v) on the network interface (%v) from machine (%s)''
                [ArgInt lid, ArgInt ifid, ArgString sid])))
   \<and> (\<forall>c' :: client. NetworkInterface_Get c' h sid ifid = NetworkInterface_Get c h sid ifid \<longrightarrow>
         getNetworkInterfaceLink c' sid ifid lid h = getNetworkInterfaceLink c sid ifid lid h)"
proof (intro conjI allI impI)
  show "snd (getNetworkInterfaceLink c sid ifid lid h) = h @ [NetworkInterfaceGet sid ifid]"
    by (simp add: getNetworkInterfaceLink_def do_NetworkInterface_Get_def
        split: sum.split option.split)
next
  fix e assume "NetworkInterface_Get c h sid ifid = Inl e"
  then show "fst (getNetworkInterfaceLink c sid ifid lid h) = Inl e"
    by (simp add: getNetworkInterfaceLink_def do_NetworkInterface_Get_def)
next
  fix ni assume g: "NetworkInterface_Get c h sid ifid = Inr ni"
    and p: "lid \<in> link_ID ` set (Links ni)"
  from p obtain l where l: "scanLinks (Links ni) lid = Some l"
    using scanLinks_None [of "Links ni" lid] by (cases "scanLinks (Links ni) lid") auto
  show "\<exists>l. fst (getNetworkInterfaceLink c sid ifid lid h) = Inr l
                 \<and> find (\<lambda>l. link_ID l = lid) (Links ni) = Some l
                 \<and> l \<in> set (Links ni) \<and> link_ID l = lid"
    using g l scanLinks_Some [OF l] scanLinks_find [of "Links ni" lid]
    by (simp add: getNetworkInterfaceLink_def do_NetworkInterface_Get_def)
next
  fix ni assume g: "NetworkInterface_Get c h sid ifid = Inr ni"
    and p: "lid \<notin> link_ID ` set (Links ni)"
  then have "scanLinks (Links ni) lid = None"
    by (simp add: scanLinks_None)
  with g show "fst (getNetworkInterfaceLink c sid ifid lid h) =
              Inl (Errorf
                ''cannot find link (%v) on the network interface (%v) from machine (%s)''
                [ArgInt lid, ArgInt ifid, ArgString sid])"
    by (simp add: getNetworkInterfaceLink_def do_NetworkInterface_Get_def)
next
  fix c' :: client
  assume "NetworkInterface_Get c' h sid ifid = NetworkInterface_Get c h sid ifid"
  then show "getNetworkInterfaceLink c' sid ifid lid h = getNetworkInterfaceLink c sid ifid lid h"
    by (simp add: getNetworkInterfaceLink_def do_NetworkInterface_Get_def)
qed

theorem getNetworkInterfaceLink_scan_witness:
  "NetworkInterface_Get (steady_client StatusReady) [] ''node1'' 5 = Inr two_link_interface
   \<and> 42 \<in> link_ID ` set (Links two_link_interface)
   \<and> 7 \<notin> link_ID ` set (Links two_link_interface)
   \<and> getNetworkInterfaceLink (steady_client StatusReady) ''node1'' 5 42 []
       = (Inr (plain_link 42), [NetworkInterfaceGet ''node1'' 5])
   \<and> getNetworkInterfaceLink (steady_client StatusReady) ''node1'' 5 7 []
       = (Inl (Errorf
                ''cannot find link (%v) on the network interface (%v) from machine (%s)''
                [ArgInt 7, ArgInt 5, ArgString ''node1'']), [NetworkInterfaceGet ''node1'' 5])"
proof -
  have g: "NetworkInterface_Get (steady_client StatusReady) [] ''node1'' 5
             = Inr two_link_interface"
    by (simp add: steady_client_def two_link_interface_def)
  have p: "42 \<in> link_ID ` set (Links two_link_interface)"
    and q: "7 \<notin> link_ID ` set (Links two_link_interface)"
    by (simp_all add: two_link_interface_def plain_link_def)
  have f: "find (\<lambda>l. link_ID l = 42) (Links two_link_interface) = Some (plain_link 42)"
    by (simp add: two_link_interface_def plain_link_def)
  from getNetworkInterfaceLink_scan [of "steady_client StatusReady" "''node1''" 5 42 "[]"] g p f
  have a: "getNetworkInterfaceLink (steady_client StatusReady) ''node1'' 5 42 []
       = (Inr (plain_link 42), [NetworkInterfaceGet ''node1'' 5])"
    by (auto simp add: prod_eq_iff)
  from getNetworkInterfaceLink_scan [of "steady_client StatusReady" "''node1''" 5 7 "[]"] g q
  have b: "getNetworkInterfaceLink (steady_client StatusReady) ''node1'' 5 7 []
       = (Inl (Errorf
                ''cannot find link (%v) on the network interface (%v) from machine (%s)''
                [ArgInt 7, ArgInt 5, ArgString ''node1'']), [NetworkInterfaceGet ''node1'' 5])"
    by (auto simp add: prod_eq_iff)
  from g p q a b show ?thesis by blast
qed

text \<open>
  Claim C7, as the code has it. The update operation always calls clear-all first. It
  calls set-default-gateway on the link, after the clear-all, exactly when the flag is
  true and the clear-all reported no error; with the flag false the clear-all is its only
  call. It returns the error of the clear-all, or else that of the set call when it is
  made.
\<close>

theorem runUpdateOperation_calls:
  "snd (runUpdateOperation c sid ifid lid dgw h) =
     h @ MachineClearDefaultGateways sid #
       (if dgw \<and> Machine_ClearDefaultGateways c h sid = None
        then [NetworkInterfaceSetDefaultGateway sid ifid lid] else [])
   \<and> (NetworkInterfaceSetDefaultGateway sid ifid lid
        \<in> set (drop (length h) (snd (runUpdateOperation c sid ifid lid dgw h)))
      \<longleftrightarrow> dgw \<and> Machine_ClearDefaultGateways c h sid = None)
   \<and> (\<not> dgw \<longrightarrow> snd (runUpdateOperation c sid ifid lid dgw h)
                   = h @ [MachineClearDefaultGateways sid])
   \<and> fst (runUpdateOperation c sid ifid lid dgw h) =
       (case Machine_ClearDefaultGateways c h sid of
          Some e \<Rightarrow> Some e
        | None \<Rightarrow>
            if dgw then NetworkInterface_SetDefaultGateway c
                          (h @ [MachineClearDefaultGateways sid]) sid ifid lid
            else None)"
  by (simp add: runUpdateOperation_def do_Machine_ClearDefaultGateways_def
      do_NetworkInterface_SetDefaultGateway_def split: option.split)

theorem runUpdateOperation_calls_witness:
  "snd (runUpdateOperation (steady_client StatusReady) ''node1'' 5 42 False [])
       = [MachineClearDefaultGateways ''node1'']
   \<and> snd (runUpdateOperation (steady_client StatusReady) ''node1'' 5 42 True [])
       = [MachineClearDefaultGateways ''node1'',
          NetworkInterfaceSetDefaultGateway ''node1'' 5 42]
   \<and> snd (runUpdateOperation clear_failing_client ''node1'' 5 42 True [])
       = [MachineClearDefaultGateways ''node1'']"
  using runUpdateOperation_calls [of "steady_client StatusReady" "''node1''" 5 42 False "[]"]
    runUpdateOperation_calls [of "steady_client StatusReady" "''node1''" 5 42 True "[]"]
    runUpdateOperation_calls [of clear_failing_client "''node1''" 5 42 True "[]"]
  by (simp add: steady_client_def clear_failing_client_def)

text \<open>
  Claim C7 as stated asks that the set call is made if and only if the flag is true. On a
  gateway whose clear-all fails, the update with the flag true makes no set call.
\<close>

theorem runUpdateOperation_set_skipped_when_clear_fails:
  "Machine_ClearDefaultGateways clear_failing_client [] ''node1''
     = Some (GatewayFailure ''clear refused'')
   \<and> NetworkInterfaceSetDefaultGateway ''node1'' 5 42
        \<notin> set (snd (runUpdateOperation clear_failing_client ''node1'' 5 42 True []))"
  by (simp add: runUpdateOperation_def do_Machine_ClearDefaultGateways_def
      clear_failing_client_def steady_client_def)

end
